theory Spec2Isabelle
  imports Main
begin

section \<open>Python strings\<close>

text \<open>
  Strings are lists of characters with code points below 256. The three \<open>str\<close> methods the
  payment code calls are written out on that range: \<open>lower()\<close> moves \<open>A\<close>..\<open>Z\<close> and the
  Latin-1 capitals (192..222 without the multiplication sign 215) up by 32 and keeps every
  other character; \<open>strip()\<close> and \<open>split()\<close> treat the code points 9..13, 28..32, 133 and
  160 as whitespace.
\<close>

definition lower_char :: "char \<Rightarrow> char" where
  "lower_char c =
     (let n = (of_char c :: nat)
      in if (65 \<le> n \<and> n \<le> 90) \<or> (192 \<le> n \<and> n \<le> 222 \<and> n \<noteq> 215)
         then char_of (n + 32) else c)"

definition lower :: "string \<Rightarrow> string" where
  "lower s = map lower_char s"

definition isspace :: "char \<Rightarrow> bool" where
  "isspace c =
     (let n = (of_char c :: nat)
      in (9 \<le> n \<and> n \<le> 13) \<or> (28 \<le> n \<and> n \<le> 32) \<or> n = 133 \<or> n = 160)"

definition strip :: "string \<Rightarrow> string" where
  "strip s = rev (dropWhile isspace (rev (dropWhile isspace s)))"

text \<open>\<open>split_from cur s\<close>: the words of \<open>s\<close>, where \<open>cur\<close> is the word being read, reversed.\<close>

fun split_from :: "string \<Rightarrow> string \<Rightarrow> string list" where
  "split_from cur [] = (if cur = [] then [] else [rev cur])"
| "split_from cur (c # cs) =
     (if isspace c
      then (if cur = [] then split_from [] cs else rev cur # split_from [] cs)
      else split_from (c # cur) cs)"

definition split :: "string \<Rightarrow> string list" where
  "split s = split_from [] s"

fun join :: "string \<Rightarrow> string list \<Rightarrow> string" where
  "join sep [] = []"
| "join sep [x] = x"
| "join sep (x # y # ys) = x @ sep @ join sep (y # ys)"

text \<open>\<open>d.get(k, default)\<close> on a dict literal, kept as the list of its items.\<close>

definition dict_get :: "('k \<times> 'v) list \<Rightarrow> 'k \<Rightarrow> 'v \<Rightarrow> 'v" where
  "dict_get d k dflt = (case map_of d k of None \<Rightarrow> dflt | Some v \<Rightarrow> v)"

text \<open>
  The exceptions that escape the service methods; \<open>InvalidOperation\<close> is
  \<open>decimal.InvalidOperation\<close>.
\<close>

datatype exn = AttributeError | IndexError | InvalidOperation

section \<open>Models (listings/models.py)\<close>

text \<open>
  Decimal amounts with two places are integers counting hundredths, dates are day numbers,
  datetimes are microseconds. A nullable column is an \<open>option\<close>.
\<close>

record user =
  username :: string
  email :: string
  first_name :: string
  last_name :: string

record listing =
  price_per_night :: int

record booking =
  booking_pk :: nat
  listing :: listing
  user :: user
  start_date :: int
  end_date :: int

record payment =
  pk :: nat
  booking :: nat
  reference :: string
  amount :: int
  currency :: string
  status :: string
  payment_method :: "string option"
  transaction_id :: "string option"
  chapa_transaction_ref :: "string option"
  checkout_url :: "string option"
  customer_email :: "string option"
  customer_name :: "string option"
  customer_phone :: "string option"
  created_at :: int
  updated_at :: int

section \<open>The environment: gateway, clock, uuid source, task queue, Payment table\<close>

text \<open>
  What \<open>payment_data\<close> carries to the gateway. The f-strings of the callback URL, the return
  URL and the booking reference are kept as the value they interpolate.
\<close>

record payment_data =
  pd_amount :: int
  pd_currency :: string
  pd_email :: "string option"
  pd_reference :: string
  pd_first_name :: string
  pd_last_name :: string
  pd_booking_reference :: nat
  pd_callback_url :: nat
  pd_return_url :: string

text \<open>
  The outcome of one HTTP exchange. A JSON body is reduced to the fields the client reads;
  \<open>None\<close> is a field that is missing or null. \<open>RequestException\<close> is what \<open>requests\<close> raises
  on a transport failure or a non-2xx answer, \<open>OtherException\<close> anything else raised inside
  the \<open>try\<close> block.
\<close>

datatype initialize_reply =
    InitializeJson "string option" "string option" "string option" "string option"
  | InitializeRequestException string
  | InitializeOtherException string

datatype verify_reply =
    VerifyJson "string option" "string option" "string option" "string option" "string option"
  | VerifyRequestException string
  | VerifyOtherException string

text \<open>
  The gateway answers the \<open>n\<close>-th HTTP request of a run; the answer may depend on the
  request and on \<open>n\<close>, so the same reference can be answered differently over time.
\<close>

record env =
  post_initialize :: "nat \<Rightarrow> payment_data \<Rightarrow> initialize_reply"
  get_verify :: "nat \<Rightarrow> string \<Rightarrow> verify_reply"
  uuid_source :: "nat \<Rightarrow> string"

datatype task = SendPaymentConfirmationEmail nat | SendPaymentFailedEmail nat

record world =
  payments :: "nat \<rightharpoonup> payment"
  next_pk :: nat
  now :: int
  http_calls :: nat
  uuid_calls :: nat
  queue :: "task list"

definition uuid4 :: "env \<Rightarrow> world \<Rightarrow> string \<times> world" where
  "uuid4 e w = (uuid_source e (uuid_calls w), w\<lparr>uuid_calls := Suc (uuid_calls w)\<rparr>)"

definition delay :: "task \<Rightarrow> world \<Rightarrow> world" where
  "delay t w = w\<lparr>queue := queue w @ [t]\<rparr>"

definition timedelta_hours :: "int \<Rightarrow> int" where
  "timedelta_hours h = h * 3600000000"

text \<open>
  \<open>Payment.save\<close>: a missing reference is generated, then the row is written with
  \<open>updated_at\<close> refreshed (\<open>auto_now\<close>).
\<close>

definition save :: "env \<Rightarrow> payment \<Rightarrow> world \<Rightarrow> payment \<times> world" where
  "save e p w =
     (let (p1, w1) = (if reference p = []
                      then (let (u, w') = uuid4 e w in (p\<lparr>reference := u\<rparr>, w'))
                      else (p, w));
          p2 = p1\<lparr>updated_at := now w1\<rparr>
      in (p2, w1\<lparr>payments := (payments w1)(pk p2 \<mapsto> p2)\<rparr>))"

section \<open>ChapaService (listings/services.py)\<close>

datatype initialize_result =
    InitializeSuccess "string option" "string option" "string option" "string option"
  | InitializeFailure string string

datatype verify_result =
    VerifySuccess "string option" "string option" "string option" "string option" "string option"
  | VerifyFailure string string

definition initialize_payment ::
  "env \<Rightarrow> payment_data \<Rightarrow> world \<Rightarrow> initialize_result \<times> world" where
  "initialize_payment e pd w =
     (let w' = w\<lparr>http_calls := Suc (http_calls w)\<rparr>
      in case post_initialize e (http_calls w) pd of
           InitializeJson url ref st msg \<Rightarrow> (InitializeSuccess url ref st msg, w')
         | InitializeRequestException err \<Rightarrow>
             (InitializeFailure err ''Failed to initialize payment'', w')
         | InitializeOtherException err \<Rightarrow>
             (InitializeFailure err ''An unexpected error occurred'', w'))"

definition verify_payment :: "env \<Rightarrow> string \<Rightarrow> world \<Rightarrow> verify_result \<times> world" where
  "verify_payment e transaction_ref w =
     (let w' = w\<lparr>http_calls := Suc (http_calls w)\<rparr>
      in case get_verify e (http_calls w) transaction_ref of
           VerifyJson st amt cur ref msg \<Rightarrow> (VerifySuccess st amt cur ref msg, w')
         | VerifyRequestException err \<Rightarrow>
             (VerifyFailure err ''Failed to verify payment'', w')
         | VerifyOtherException err \<Rightarrow>
             (VerifyFailure err ''An unexpected error occurred'', w'))"

definition status_mapping :: "(string \<times> string) list" where
  "status_mapping =
     [(''success'', ''completed''), (''pending'', ''pending''),
      (''failed'', ''failed''), (''cancelled'', ''cancelled'')]"

text \<open>
  \<open>verification_result.get('status', '')\<close> finds the key whenever the call succeeded, so a
  null status reaches \<open>.lower()\<close> and raises.
\<close>

definition get_payment_status ::
  "env \<Rightarrow> string \<Rightarrow> world \<Rightarrow> (exn \<times> world) + (string \<times> world)" where
  "get_payment_status e transaction_ref w =
     (case verify_payment e transaction_ref w of
        (VerifySuccess st amt cur ref msg, w') \<Rightarrow>
          (case st of
             None \<Rightarrow> Inl (AttributeError, w')
           | Some s \<Rightarrow> Inr (dict_get status_mapping (lower s) ''pending'', w'))
      | (VerifyFailure err msg, w') \<Rightarrow> Inr (''failed'', w'))"

section \<open>PaymentService (listings/services.py)\<close>

text \<open>
  The \<open>amount\<close> column is \<open>DecimalField(max_digits=10, decimal_places=2)\<close>. When a
  new row is prepared for the database the amount is quantized to two places with a
  precision of \<open>max_digits\<close>, which raises \<open>decimal.InvalidOperation\<close> when the amount has
  more than ten digits: counted in hundredths, when its absolute value reaches \<open>10 ^ 10\<close>,
  that is 100000000.00.
\<close>

definition max_digits :: nat where
  "max_digits = 10"

definition adapt_decimalfield_value :: "int \<Rightarrow> exn + int" where
  "adapt_decimalfield_value a =
     (if \<bar>a\<bar> < 10 ^ max_digits then Inr a else Inl InvalidOperation)"

text \<open>
  \<open>Payment.objects.create\<close>: the object gets the field defaults of the model, with a
  generated UUID as reference (a UUID object is never falsy, so the check in
  \<open>Payment.save\<close> does nothing on this path). Then the row is prepared: an amount the
  column cannot hold raises before anything is written; otherwise the row is inserted
  under a fresh primary key with both timestamps at the current time. String columns are
  stored as given.
\<close>

definition objects_create ::
  "env \<Rightarrow> nat \<Rightarrow> int \<Rightarrow> string option \<Rightarrow> string option \<Rightarrow> string \<Rightarrow> world
     \<Rightarrow> (exn \<times> world) + (payment \<times> world)" where
  "objects_create e bk amt cemail cname st w =
     (let (u, w1) = uuid4 e w
      in case adapt_decimalfield_value amt of
           Inl x \<Rightarrow> Inl (x, w1)
         | Inr a \<Rightarrow>
             (let p = \<lparr>pk = next_pk w1, booking = bk, reference = u, amount = a,
                       currency = ''ETB'', status = st, payment_method = None,
                       transaction_id = None, chapa_transaction_ref = None,
                       checkout_url = None, customer_email = cemail,
                       customer_name = cname, customer_phone = None,
                       created_at = now w1, updated_at = now w1\<rparr>
              in Inr (p, w1\<lparr>payments := (payments w1)(pk p \<mapsto> p),
                             next_pk := Suc (next_pk w1)\<rparr>)))"

definition create_payment_for_booking ::
  "env \<Rightarrow> booking \<Rightarrow> user \<Rightarrow> world \<Rightarrow> (exn \<times> world) + (payment \<times> world)" where
  "create_payment_for_booking e b u w =
     (let nights = end_date b - start_date b;
          total_amount = price_per_night (listing b) * nights;
          full_name = strip (first_name u @ '' '' @ last_name u)
      in objects_create e (booking_pk b) total_amount (Some (email u))
           (Some (if full_name = [] then username u else full_name)) ''pending'' w)"

datatype initiate_result =
    InitiateSuccess "string option" nat string
  | InitiateFailure string string

text \<open>A string field is truthy when it is neither null nor empty.\<close>

definition truthy :: "string option \<Rightarrow> bool" where
  "truthy x = (case x of None \<Rightarrow> False | Some s \<Rightarrow> s \<noteq> [])"

definition name_words :: "payment \<Rightarrow> string list" where
  "name_words p = (case customer_name p of None \<Rightarrow> [] | Some s \<Rightarrow> split s)"

definition first_item :: "'a list \<Rightarrow> exn + 'a" where
  "first_item xs = (case xs of [] \<Rightarrow> Inl IndexError | x # _ \<Rightarrow> Inr x)"

text \<open>
  Building \<open>payment_data\<close>: \<open>customer_name.split()[0]\<close> raises on a name that is only
  whitespace, before the gateway is called.
\<close>

definition build_payment_data :: "payment \<Rightarrow> exn + payment_data" where
  "build_payment_data p =
     (case (if truthy (customer_name p) then first_item (name_words p) else Inr []) of
        Inl x \<Rightarrow> Inl x
      | Inr fname \<Rightarrow>
          Inr \<lparr>pd_amount = amount p, pd_currency = currency p,
               pd_email = customer_email p, pd_reference = reference p,
               pd_first_name = fname,
               pd_last_name =
                 (if truthy (customer_name p) \<and> length (name_words p) > 1
                  then join '' '' (drop 1 (name_words p)) else []),
               pd_booking_reference = booking p, pd_callback_url = pk p,
               pd_return_url = reference p\<rparr>)"

definition initiate_payment ::
  "env \<Rightarrow> payment \<Rightarrow> world \<Rightarrow> (exn \<times> world) + (initiate_result \<times> payment \<times> world)" where
  "initiate_payment e p w =
     (case build_payment_data p of
        Inl x \<Rightarrow> Inl (x, w)
      | Inr pd \<Rightarrow>
          (case initialize_payment e pd w of
             (InitializeSuccess url ref st msg, w1) \<Rightarrow>
               (let (p', w2) = save e (p\<lparr>chapa_transaction_ref := ref, checkout_url := url,
                                        status := ''processing''\<rparr>) w1
                in Inr (InitiateSuccess url (pk p') (reference p'), p', w2))
           | (InitializeFailure err msg, w1) \<Rightarrow>
               (let (p', w2) = save e (p\<lparr>status := ''failed''\<rparr>) w1
                in Inr (InitiateFailure err msg, p', w2))))"

datatype verification_result =
    VerificationSuccess string "string option" "string option"
  | VerificationFailure string string

definition no_reference_found :: verification_result where
  "no_reference_found =
     VerificationFailure ''No Chapa transaction reference found'' ''Payment verification failed''"

definition verify_with_reference ::
  "env \<Rightarrow> string \<Rightarrow> payment \<Rightarrow> world
     \<Rightarrow> (exn \<times> world) + (verification_result \<times> payment \<times> world)" where
  "verify_with_reference e tr p w =
     (case verify_payment e tr w of
        (VerifySuccess st amt cur ref msg, w1) \<Rightarrow>
          (case get_payment_status e tr w1 of
             Inl (x, w2) \<Rightarrow> Inl (x, w2)
           | Inr (new_status, w2) \<Rightarrow>
               (let (p', w3) = save e (p\<lparr>status := new_status\<rparr>) w2
                in Inr (VerificationSuccess new_status amt cur, p', w3)))
      | (VerifyFailure err msg, w1) \<Rightarrow> Inr (VerificationFailure err msg, p, w1))"

definition verify_payment_status ::
  "env \<Rightarrow> payment \<Rightarrow> world
     \<Rightarrow> (exn \<times> world) + (verification_result \<times> payment \<times> world)" where
  "verify_payment_status e p w =
     (case chapa_transaction_ref p of
        None \<Rightarrow> Inr (no_reference_found, p, w)
      | Some tr \<Rightarrow>
          (if tr = [] then Inr (no_reference_found, p, w)
           else verify_with_reference e tr p w))"

section \<open>Tasks (listings/tasks.py)\<close>

text \<open>
  \<open>update_payment_status\<close> logs and swallows a missing payment and every exception; what
  stays of a run is the world it leaves.
\<close>

definition update_payment_status :: "env \<Rightarrow> nat \<Rightarrow> world \<Rightarrow> world" where
  "update_payment_status e payment_id w =
     (case payments w payment_id of
        None \<Rightarrow> w
      | Some p \<Rightarrow>
          (case verify_payment_status e p w of
             Inl (x, w') \<Rightarrow> w'
           | Inr (VerificationSuccess st amt cur, p', w') \<Rightarrow>
               (if st = ''completed'' then delay (SendPaymentConfirmationEmail payment_id) w'
                else if st = ''failed'' then delay (SendPaymentFailedEmail payment_id) w'
                else w')
           | Inr (VerificationFailure err msg, p', w') \<Rightarrow> w'))"

definition expired :: "int \<Rightarrow> payment \<Rightarrow> bool" where
  "expired cutoff_time p = (status p = ''pending'' \<and> created_at p < cutoff_time)"

definition cleanup_expired_payments :: "world \<Rightarrow> world" where
  "cleanup_expired_payments w =
     (let cutoff_time = now w - timedelta_hours 24
      in w\<lparr>payments := (\<lambda>i. case payments w i of
                               None \<Rightarrow> None
                             | Some p \<Rightarrow> Some (if expired cutoff_time p
                                               then p\<lparr>status := ''failed''\<rparr> else p))\<rparr>)"

section \<open>The normalisation table as the specification words it\<close>

text \<open>
  The specification's \<open>normalize_status\<close>: a fixed table from the gateway's vocabulary to
  the internal one, every other value going to \<open>pending\<close>.
\<close>

definition normalize_status :: "string \<Rightarrow> string" where
  "normalize_status r =
     (if r = ''success'' then ''completed''
      else if r = ''pending'' then ''pending''
      else if r = ''failed'' then ''failed''
      else if r = ''cancelled'' then ''cancelled''
      else ''pending'')"

definition gateway_vocabulary :: "string list" where
  "gateway_vocabulary = [''success'', ''pending'', ''failed'', ''cancelled'']"

definition terminal :: "string \<Rightarrow> bool" where
  "terminal st = (st = ''completed'' \<or> st = ''failed'' \<or> st = ''cancelled'')"

text \<open>What the gateway answers to the \<open>n\<close>-th request, when that is a verification.\<close>

definition reports :: "env \<Rightarrow> nat \<Rightarrow> string \<Rightarrow> string \<Rightarrow> bool" where
  "reports e n tr s =
     (case get_verify e n tr of
        VerifyJson st amt cur ref msg \<Rightarrow> st = Some s
      | VerifyRequestException err \<Rightarrow> False
      | VerifyOtherException err \<Rightarrow> False)"

definition verify_fails :: "env \<Rightarrow> nat \<Rightarrow> string \<Rightarrow> bool" where
  "verify_fails e n tr =
     (case get_verify e n tr of
        VerifyJson st amt cur ref msg \<Rightarrow> False
      | VerifyRequestException err \<Rightarrow> True
      | VerifyOtherException err \<Rightarrow> True)"

definition initialize_fails :: "env \<Rightarrow> nat \<Rightarrow> payment_data \<Rightarrow> bool" where
  "initialize_fails e n pd =
     (case post_initialize e n pd of
        InitializeJson url ref st msg \<Rightarrow> False
      | InitializeRequestException err \<Rightarrow> True
      | InitializeOtherException err \<Rightarrow> True)"

text \<open>The notification a run of \<open>update_payment_status\<close> enqueues for a verified status.\<close>

definition notification :: "nat \<Rightarrow> string \<Rightarrow> task list" where
  "notification payment_id st =
     (if st = ''completed'' then [SendPaymentConfirmationEmail payment_id]
      else if st = ''failed'' then [SendPaymentFailedEmail payment_id]
      else [])"

text \<open>The gateway reference stored for each primary key.\<close>

definition gateway_refs :: "world \<Rightarrow> nat \<Rightarrow> string option option" where
  "gateway_refs w i = map_option chapa_transaction_ref (payments w i)"

section \<open>Example values\<close>

definition alice :: user where
  "alice = \<lparr>username = ''alice'', email = ''alice@example.com'',
            first_name = ''Alice'', last_name = ''Liddell''\<rparr>"

definition cottage :: listing where
  "cottage = \<lparr>price_per_night = 10000\<rparr>"

definition three_nights :: booking where
  "three_nights = \<lparr>booking_pk = 7, listing = cottage, user = alice,
                   start_date = 738000, end_date = 738003\<rparr>"

definition backwards :: booking where
  "backwards = \<lparr>booking_pk = 8, listing = cottage, user = alice,
                start_date = 738003, end_date = 738001\<rparr>"

text \<open>A listing at the highest price the price column holds, 99999999.99 a night.\<close>

definition palace :: listing where
  "palace = \<lparr>price_per_night = 9999999999\<rparr>"

definition two_nights_palace :: booking where
  "two_nights_palace = \<lparr>booking_pk = 9, listing = palace, user = alice,
                        start_date = 738000, end_date = 738002\<rparr>"

definition noon :: int where
  "noon = 1700000000000000"

definition empty_world :: world where
  "empty_world = \<lparr>payments = Map.empty, next_pk = 1, now = noon, http_calls = 0,
                  uuid_calls = 0, queue = []\<rparr>"

definition receipt :: "string \<Rightarrow> payment" where
  "receipt st = \<lparr>pk = 1, booking = 7, reference = ''ref-1'', amount = 30000,
                 currency = ''ETB'', status = st, payment_method = None,
                 transaction_id = None, chapa_transaction_ref = Some ''chapa-1'',
                 checkout_url = Some ''https://checkout/1'',
                 customer_email = Some ''alice@example.com'',
                 customer_name = Some ''Alice Liddell'', customer_phone = None,
                 created_at = noon - timedelta_hours 2,
                 updated_at = noon - timedelta_hours 1\<rparr>"

definition world_with :: "payment \<Rightarrow> world" where
  "world_with p = empty_world\<lparr>payments := [pk p \<mapsto> p], next_pk := Suc (pk p)\<rparr>"

text \<open>A gateway that is up and reports the status \<open>s\<close> for every reference.\<close>

definition gateway_reporting :: "string \<Rightarrow> env" where
  "gateway_reporting s =
     \<lparr>post_initialize = (\<lambda>n pd. InitializeJson (Some ''https://checkout/2'')
                                   (Some ''chapa-2'') (Some ''success'') None),
      get_verify = (\<lambda>n tr. VerifyJson (Some s) (Some ''300.00'') (Some ''ETB'')
                             (Some tr) None),
      uuid_source = (\<lambda>n. ''uuid'')\<rparr>"

text \<open>A gateway that answers the first request and fails every later one.\<close>

definition gateway_then_down :: "string \<Rightarrow> env" where
  "gateway_then_down s =
     \<lparr>post_initialize = (\<lambda>n pd. InitializeRequestException ''timeout''),
      get_verify = (\<lambda>n tr. if n = 0
                            then VerifyJson (Some s) (Some ''300.00'') (Some ''ETB'')
                                   (Some tr) None
                            else VerifyRequestException ''timeout''),
      uuid_source = (\<lambda>n. ''uuid'')\<rparr>"

text \<open>Two pending payments, created 25 hours and 1 hour before \<open>noon\<close>.\<close>

definition stale :: payment where
  "stale = (receipt ''pending'')\<lparr>created_at := noon - timedelta_hours 25\<rparr>"

definition recent :: payment where
  "recent = (receipt ''pending'')\<lparr>pk := 2, created_at := noon - timedelta_hours 1\<rparr>"

definition two_pending :: world where
  "two_pending = empty_world\<lparr>payments := [1 \<mapsto> stale, 2 \<mapsto> recent], next_pk := 3\<rparr>"

section \<open>Facts about the gateway client\<close>

lemma dict_get_status_mapping:
  "dict_get status_mapping k ''pending'' = normalize_status k"
  by (simp add: dict_get_def status_mapping_def normalize_status_def)

lemma verify_payment_json:
  "get_verify e (http_calls w) tr = VerifyJson st amt cur ref msg \<Longrightarrow>
   verify_payment e tr w
     = (VerifySuccess st amt cur ref msg, w\<lparr>http_calls := Suc (http_calls w)\<rparr>)"
  by (simp add: verify_payment_def)

lemma get_payment_status_json:
  "get_verify e (http_calls w) tr = VerifyJson (Some s) amt cur ref msg \<Longrightarrow>
   get_payment_status e tr w
     = Inr (normalize_status (lower s), w\<lparr>http_calls := Suc (http_calls w)\<rparr>)"
  by (simp add: get_payment_status_def verify_payment_json dict_get_status_mapping)

lemma reports_json:
  "reports e n tr s \<Longrightarrow> \<exists>amt cur ref msg. get_verify e n tr = VerifyJson (Some s) amt cur ref msg"
  by (cases "get_verify e n tr") (simp_all add: reports_def)

lemma normalize_status_iff:
  "(normalize_status k = ''completed'') = (k = ''success'')"
  "(normalize_status k = ''failed'') = (k = ''failed'')"
  "(normalize_status k = ''cancelled'') = (k = ''cancelled'')"
  "(normalize_status k = ''pending'') = (k = ''pending'' \<or> k \<notin> set gateway_vocabulary)"
  by (simp_all add: normalize_status_def gateway_vocabulary_def)

lemma lower_SUCCESS: "lower ''SUCCESS'' = ''success''"
  by code_simp

lemma lower_weird_status: "lower ''weird_status'' = ''weird_status''"
  by (simp add: lower_def lower_char_def)

lemma reporting_verify:
  "get_verify (gateway_reporting s) n tr
     = VerifyJson (Some s) (Some ''300.00'') (Some ''ETB'') (Some tr) None"
  by (simp add: gateway_reporting_def)

lemma reporting_reports: "reports (gateway_reporting s) n tr s"
  by (simp add: reports_def reporting_verify)

lemma lower_success: "lower ''success'' = ''success''"
  by (simp add: lower_def lower_char_def)

lemma lower_failed: "lower ''failed'' = ''failed''"
  by (simp add: lower_def lower_char_def)

section \<open>Status normalisation\<close>

text \<open>
  C6, as the code has it. For every status string \<open>s\<close> the gateway reports,
  \<open>get_payment_status\<close> returns a status, and which one is decided by the lower-cased
  string: \<open>completed\<close> exactly for \<open>success\<close>, \<open>failed\<close> exactly for \<open>failed\<close>, \<open>cancelled\<close>
  exactly for \<open>cancelled\<close>, and \<open>pending\<close> for \<open>pending\<close> and for every string whose
  lower-case form is outside the gateway vocabulary. No string outside the vocabulary up
  to case reaches \<open>completed\<close>.
\<close>

theorem normalisation_up_to_case:
  assumes "get_verify e (http_calls w) tr = VerifyJson (Some s) amt cur ref msg"
  shows "case get_payment_status e tr w of
           Inl x \<Rightarrow> False
         | Inr (st, w') \<Rightarrow>
             (st = ''completed'') = (lower s = ''success'')
             \<and> (st = ''failed'') = (lower s = ''failed'')
             \<and> (st = ''cancelled'') = (lower s = ''cancelled'')
             \<and> (st = ''pending'')
                 = (lower s = ''pending'' \<or> lower s \<notin> set gateway_vocabulary)"
  using get_payment_status_json [OF assms]
  by (simp add: normalize_status_iff)

text \<open>The specification's own example: \<open>weird_status\<close> normalises to \<open>pending\<close>.\<close>

theorem normalisation_up_to_case_witness:
  "get_verify (gateway_reporting ''weird_status'') (http_calls empty_world) ''chapa-1''
     = VerifyJson (Some ''weird_status'') (Some ''300.00'') (Some ''ETB'') (Some ''chapa-1'') None
   \<and> (case get_payment_status (gateway_reporting ''weird_status'') ''chapa-1'' empty_world of
         Inl x \<Rightarrow> False
       | Inr (st, w') \<Rightarrow> st = ''pending'')"
proof -
  have h: "get_verify (gateway_reporting ''weird_status'') (http_calls empty_world) ''chapa-1''
     = VerifyJson (Some ''weird_status'') (Some ''300.00'') (Some ''ETB'') (Some ''chapa-1'') None"
    by (rule reporting_verify)
  have v: "lower ''weird_status'' \<notin> set gateway_vocabulary"
    by (simp add: lower_weird_status gateway_vocabulary_def)
  show ?thesis
    using normalisation_up_to_case [OF h] h v
    by (simp split: sum.splits prod.splits)
qed

text \<open>
  The string \<open>SUCCESS\<close> is not one of the four words of the gateway vocabulary, and it is
  normalised to \<open>completed\<close>, not to \<open>pending\<close>.
\<close>

theorem uppercase_success_counterexample:
  "''SUCCESS'' \<notin> set gateway_vocabulary
   \<and> get_payment_status (gateway_reporting ''SUCCESS'') ''chapa-1'' empty_world
       = Inr (''completed'', empty_world\<lparr>http_calls := Suc (http_calls empty_world)\<rparr>)"
proof -
  have "''SUCCESS'' \<notin> set gateway_vocabulary"
    by (simp add: gateway_vocabulary_def)
  moreover have "get_payment_status (gateway_reporting ''SUCCESS'') ''chapa-1'' empty_world
       = Inr (''completed'', empty_world\<lparr>http_calls := Suc (http_calls empty_world)\<rparr>)"
    by (simp add: get_payment_status_json [OF reporting_verify] lower_SUCCESS
        normalize_status_iff)
  ultimately show ?thesis by simp
qed

text \<open>
  C10. Status normalisation is case-insensitive: for every status string \<open>s\<close> the gateway
  reports, \<open>get_payment_status\<close> makes one request and returns the entry of the mapping at
  \<open>lower s\<close>, or \<open>pending\<close> when the mapping has no such key.
\<close>

theorem status_lookup_lowercases:
  assumes "get_verify e (http_calls w) tr = VerifyJson (Some s) amt cur ref msg"
  shows "get_payment_status e tr w
           = Inr (case map_of status_mapping (lower s) of None \<Rightarrow> ''pending'' | Some v \<Rightarrow> v,
                  w\<lparr>http_calls := Suc (http_calls w)\<rparr>)"
  using assms
  by (simp add: get_payment_status_def verify_payment_def dict_get_def)

text \<open>The remote status \<open>SUCCESS\<close> is lower-cased to \<open>success\<close> and gives \<open>completed\<close>.\<close>

theorem status_lookup_lowercases_witness:
  "get_verify (gateway_reporting ''SUCCESS'') (http_calls empty_world) ''chapa-7''
     = VerifyJson (Some ''SUCCESS'') (Some ''300.00'') (Some ''ETB'') (Some ''chapa-7'') None
   \<and> lower ''SUCCESS'' = ''success''
   \<and> get_payment_status (gateway_reporting ''SUCCESS'') ''chapa-7'' empty_world
       = Inr (''completed'', empty_world\<lparr>http_calls := Suc (http_calls empty_world)\<rparr>)"
proof -
  have h: "get_verify (gateway_reporting ''SUCCESS'') (http_calls empty_world) ''chapa-7''
     = VerifyJson (Some ''SUCCESS'') (Some ''300.00'') (Some ''ETB'') (Some ''chapa-7'') None"
    by (rule reporting_verify)
  have m: "map_of status_mapping ''success'' = Some ''completed''"
    by (simp add: status_mapping_def)
  show ?thesis
    using status_lookup_lowercases [OF h] h
    by (simp add: lower_SUCCESS m)
qed

section \<open>Facts about saving and verifying\<close>

lemma save_payment:
  "case save e p w of
     (p', w') \<Rightarrow>
       pk p' = pk p \<and> status p' = status p
       \<and> chapa_transaction_ref p' = chapa_transaction_ref p
       \<and> checkout_url p' = checkout_url p \<and> amount p' = amount p
       \<and> created_at p' = created_at p"
  by (simp add: save_def uuid4_def Let_def split: prod.splits)

lemma save_world:
  "case save e p w of
     (p', w') \<Rightarrow>
       payments w' = (payments w)(pk p \<mapsto> p') \<and> queue w' = queue w
       \<and> http_calls w' = http_calls w \<and> now w' = now w \<and> next_pk w' = next_pk w"
  by (simp add: save_def uuid4_def Let_def split: prod.splits)

lemma save_referenced:
  "reference p \<noteq> [] \<Longrightarrow>
   save e p w = (p\<lparr>updated_at := now w\<rparr>,
                 w\<lparr>payments := (payments w)(pk p \<mapsto> p\<lparr>updated_at := now w\<rparr>)\<rparr>)"
  by (simp add: save_def Let_def)

lemma verify_payment_fails:
  "verify_fails e (http_calls w) tr \<Longrightarrow>
   \<exists>err msg. verify_payment e tr w
     = (VerifyFailure err msg, w\<lparr>http_calls := Suc (http_calls w)\<rparr>)"
  by (simp add: verify_payment_def verify_fails_def split: verify_reply.splits)

lemma get_payment_status_fails:
  "verify_fails e (http_calls w) tr \<Longrightarrow>
   get_payment_status e tr w = Inr (''failed'', w\<lparr>http_calls := Suc (http_calls w)\<rparr>)"
  by (auto simp add: get_payment_status_def dest!: verify_payment_fails)

lemma verify_payment_calls:
  "http_calls (snd (verify_payment e tr w)) = Suc (http_calls w)"
  "payments (snd (verify_payment e tr w)) = payments w"
  "queue (snd (verify_payment e tr w)) = queue w"
  "now (snd (verify_payment e tr w)) = now w"
  by (simp_all add: verify_payment_def Let_def split: verify_reply.splits)

lemma then_down_verify:
  "get_verify (gateway_then_down s) 0 tr
     = VerifyJson (Some s) (Some ''300.00'') (Some ''ETB'') (Some tr) None"
  "verify_fails (gateway_then_down s) (Suc n) tr"
  by (simp_all add: gateway_then_down_def verify_fails_def)

lemma receipt_fields:
  "pk (receipt st) = 1"
  "status (receipt st) = st"
  "chapa_transaction_ref (receipt st) = Some ''chapa-1''"
  "reference (receipt st) = ''ref-1''"
  "(receipt st)\<lparr>status := st'\<rparr> = receipt st'"
  by (simp_all add: receipt_def)

lemma world_with_fields:
  "http_calls (world_with p) = 0"
  "payments (world_with p) = [pk p \<mapsto> p]"
  "queue (world_with p) = []"
  "now (world_with p) = noon"
  by (simp_all add: world_with_def empty_world_def)

lemma verify_with_reference_cases:
  "case verify_with_reference e tr p w of
     Inl (x, w') \<Rightarrow> payments w' = payments w \<and> queue w' = queue w
   | Inr (VerificationSuccess st amt cur, p', w') \<Rightarrow>
       status p' = st \<and> pk p' = pk p
       \<and> chapa_transaction_ref p' = chapa_transaction_ref p
       \<and> payments w' = (payments w)(pk p \<mapsto> p') \<and> queue w' = queue w
       \<and> (case get_payment_status e tr (w\<lparr>http_calls := Suc (http_calls w)\<rparr>) of
             Inl y \<Rightarrow> False | Inr (st', w2) \<Rightarrow> st' = st)
   | Inr (VerificationFailure err msg, p', w') \<Rightarrow>
       p' = p \<and> payments w' = payments w \<and> queue w' = queue w
       \<and> verify_fails e (http_calls w) tr"
proof (cases "get_verify e (http_calls w) tr")
  case (VerifyJson st amt cur ref msg)
  let ?w1 = "w\<lparr>http_calls := Suc (http_calls w)\<rparr>"
  have v: "verify_payment e tr w = (VerifySuccess st amt cur ref msg, ?w1)"
    by (rule verify_payment_json [OF VerifyJson])
  show ?thesis
  proof (cases "get_payment_status e tr ?w1")
    case (Inl a)
    obtain x w2 where a: "a = (x, w2)" by (cases a)
    have "payments w2 = payments w \<and> queue w2 = queue w"
      using Inl a verify_payment_calls [of e tr ?w1]
      by (auto simp add: get_payment_status_def split: prod.splits verify_result.splits option.splits)
    then show ?thesis
      by (simp add: verify_with_reference_def v Inl a)
  next
    case (Inr b)
    obtain new_status w2 where b: "b = (new_status, w2)" by (cases b)
    have w2: "payments w2 = payments w \<and> queue w2 = queue w"
      using Inr b verify_payment_calls [of e tr ?w1]
      by (auto simp add: get_payment_status_def split: prod.splits verify_result.splits option.splits)
    show ?thesis
      using save_payment [where e = e and p = "p\<lparr>status := new_status\<rparr>" and w = w2]
        save_world [where e = e and p = "p\<lparr>status := new_status\<rparr>" and w = w2] w2
      by (simp add: verify_with_reference_def v Inr b split: prod.splits)
  qed
next
  case (VerifyRequestException err)
  then show ?thesis
    by (simp add: verify_with_reference_def verify_payment_def verify_fails_def)
next
  case (VerifyOtherException err)
  then show ?thesis
    by (simp add: verify_with_reference_def verify_payment_def verify_fails_def)
qed

section \<open>Gateway failures\<close>

text \<open>
  C9. When the gateway's verify call fails, \<open>get_payment_status\<close> returns \<open>failed\<close>. So
  when the first call of \<open>verify_payment_status\<close> is answered and the second one, made
  inside \<open>get_payment_status\<close>, fails, the payment is saved with status \<open>failed\<close> and the
  caller gets a success result carrying \<open>failed\<close>.
\<close>

theorem second_call_failure_marks_failed:
  assumes "chapa_transaction_ref p = Some tr" and "tr \<noteq> []"
    and "get_verify e (http_calls w) tr = VerifyJson st amt cur ref msg"
    and "verify_fails e (Suc (http_calls w)) tr"
  shows "get_payment_status e tr (w\<lparr>http_calls := Suc (http_calls w)\<rparr>)
           = Inr (''failed'', w\<lparr>http_calls := Suc (Suc (http_calls w))\<rparr>)
         \<and> (case verify_payment_status e p w of
               Inl x \<Rightarrow> False
             | Inr (r, p', w') \<Rightarrow>
                 r = VerificationSuccess ''failed'' amt cur \<and> status p' = ''failed''
                 \<and> payments w' (pk p) = Some p')"
proof -
  let ?w1 = "w\<lparr>http_calls := Suc (http_calls w)\<rparr>"
  have g: "get_payment_status e tr ?w1
             = Inr (''failed'', w\<lparr>http_calls := Suc (Suc (http_calls w))\<rparr>)"
    using get_payment_status_fails [of e ?w1 tr] assms(4) by simp
  have v: "verify_with_reference e tr p w
             = (let (p', w3) = save e (p\<lparr>status := ''failed''\<rparr>)
                                  (w\<lparr>http_calls := Suc (Suc (http_calls w))\<rparr>)
                in Inr (VerificationSuccess ''failed'' amt cur, p', w3))"
    by (simp add: verify_with_reference_def verify_payment_json [OF assms(3)] g)
  have "case verify_payment_status e p w of
               Inl x \<Rightarrow> False
             | Inr (r, p', w') \<Rightarrow>
                 r = VerificationSuccess ''failed'' amt cur \<and> status p' = ''failed''
                 \<and> payments w' (pk p) = Some p'"
    using save_payment [where e = e and p = "p\<lparr>status := ''failed''\<rparr>"
          and w = "w\<lparr>http_calls := Suc (Suc (http_calls w))\<rparr>"]
      save_world [where e = e and p = "p\<lparr>status := ''failed''\<rparr>"
          and w = "w\<lparr>http_calls := Suc (Suc (http_calls w))\<rparr>"]
    by (simp add: verify_payment_status_def assms(1,2) v split: prod.splits)
  with g show ?thesis by simp
qed

text \<open>A processing payment, a gateway that answers once and then times out.\<close>

theorem second_call_failure_marks_failed_witness:
  "chapa_transaction_ref (receipt ''processing'') = Some ''chapa-1''
   \<and> get_verify (gateway_then_down ''pending'') (http_calls (world_with (receipt ''processing'')))
        ''chapa-1''
       = VerifyJson (Some ''pending'') (Some ''300.00'') (Some ''ETB'') (Some ''chapa-1'') None
   \<and> verify_fails (gateway_then_down ''pending'')
        (Suc (http_calls (world_with (receipt ''processing'')))) ''chapa-1''
   \<and> (case verify_payment_status (gateway_then_down ''pending'') (receipt ''processing'')
              (world_with (receipt ''processing'')) of
         Inl x \<Rightarrow> False
       | Inr (r, p', w') \<Rightarrow>
           r = VerificationSuccess ''failed'' (Some ''300.00'') (Some ''ETB'')
           \<and> status p' = ''failed'' \<and> payments w' (pk (receipt ''processing'')) = Some p')"
proof -
  let ?e = "gateway_then_down ''pending''"
  let ?p = "receipt ''processing''"
  have a: "chapa_transaction_ref ?p = Some ''chapa-1''" by (simp add: receipt_fields)
  have b: "''chapa-1'' \<noteq> []" by simp
  have c: "get_verify ?e (http_calls (world_with ?p)) ''chapa-1''
             = VerifyJson (Some ''pending'') (Some ''300.00'') (Some ''ETB'') (Some ''chapa-1'') None"
    by (simp add: world_with_fields then_down_verify)
  have d: "verify_fails ?e (Suc (http_calls (world_with ?p))) ''chapa-1''"
    by (rule then_down_verify)
  show ?thesis
    using second_call_failure_marks_failed [OF a b c d] a c d
    by simp
qed

text \<open>
  C4, on verification. The payment is \<open>processing\<close>; the gateway answers the first
  request with \<open>success\<close> and the second request times out. The call returns a success
  result with status \<open>failed\<close>, and the payment is stored as \<open>failed\<close>: the status is not
  left as it was and no error result is returned.
\<close>

theorem verify_second_call_down:
  "verify_payment_status (gateway_then_down ''success'') (receipt ''processing'')
       (world_with (receipt ''processing''))
     = Inr (VerificationSuccess ''failed'' (Some ''300.00'') (Some ''ETB''),
            (receipt ''failed'')\<lparr>updated_at := noon\<rparr>,
            (world_with ((receipt ''failed'')\<lparr>updated_at := noon\<rparr>))\<lparr>http_calls := 2\<rparr>)"
proof -
  let ?e = "gateway_then_down ''success''"
  let ?w = "world_with (receipt ''processing'')"
  have v: "verify_payment ?e ''chapa-1'' ?w
             = (VerifySuccess (Some ''success'') (Some ''300.00'') (Some ''ETB'')
                  (Some ''chapa-1'') None, ?w\<lparr>http_calls := Suc 0\<rparr>)"
    using verify_payment_json [of ?e ?w "''chapa-1''"]
    by (simp add: world_with_fields then_down_verify)
  have g: "get_payment_status ?e ''chapa-1'' (?w\<lparr>http_calls := Suc 0\<rparr>)
             = Inr (''failed'', ?w\<lparr>http_calls := Suc (Suc 0)\<rparr>)"
    using get_payment_status_fails [of ?e "?w\<lparr>http_calls := Suc 0\<rparr>" "''chapa-1''"]
    by (simp add: then_down_verify)
  have s: "save ?e (receipt ''failed'') (?w\<lparr>http_calls := Suc (Suc 0)\<rparr>)
             = ((receipt ''failed'')\<lparr>updated_at := noon\<rparr>,
                (world_with ((receipt ''failed'')\<lparr>updated_at := noon\<rparr>))\<lparr>http_calls := 2\<rparr>)"
    by (simp add: save_referenced receipt_fields world_with_fields)
       (simp add: world_with_def receipt_fields empty_world_def)
  show ?thesis
    by (simp add: verify_payment_status_def verify_with_reference_def receipt_fields v g s)
qed

section \<open>Verification and the stored status\<close>

lemma verify_payment_status_cases:
  "case verify_payment_status e p w of
     Inl (x, w') \<Rightarrow> payments w' = payments w \<and> queue w' = queue w
   | Inr (VerificationSuccess st amt cur, p', w') \<Rightarrow>
       status p' = st \<and> pk p' = pk p
       \<and> chapa_transaction_ref p' = chapa_transaction_ref p
       \<and> payments w' = (payments w)(pk p \<mapsto> p') \<and> queue w' = queue w
   | Inr (VerificationFailure err msg, p', w') \<Rightarrow>
       p' = p \<and> payments w' = payments w \<and> queue w' = queue w"
proof (cases "chapa_transaction_ref p")
  case None
  then show ?thesis
    by (simp add: verify_payment_status_def no_reference_found_def)
next
  case (Some tr)
  show ?thesis
  proof (cases "tr = []")
    case True
    with Some show ?thesis
      by (simp add: verify_payment_status_def no_reference_found_def)
  next
    case False
    have "verify_payment_status e p w = verify_with_reference e tr p w"
      using Some False by (simp add: verify_payment_status_def)
    then show ?thesis
      using verify_with_reference_cases [where e = e and tr = tr and p = p and w = w]
      by (simp split: sum.splits prod.splits verification_result.splits)
  qed
qed




section \<open>The gateway reference\<close>

lemma initialize_payment_calls:
  "case initialize_payment e pd w of
     (r, w') \<Rightarrow> payments w' = payments w \<and> queue w' = queue w
       \<and> http_calls w' = Suc (http_calls w)"
  by (simp add: initialize_payment_def Let_def split: initialize_reply.splits)

lemma initiate_payment_cases:
  "case initiate_payment e p w of
     Inl (x, w') \<Rightarrow> w' = w \<and> build_payment_data p = Inl x
   | Inr (InitiateSuccess url i r, p', w') \<Rightarrow>
       status p' = ''processing'' \<and> checkout_url p' = url \<and> pk p' = pk p
       \<and> payments w' = (payments w)(pk p \<mapsto> p')
       \<and> (case build_payment_data p of
             Inl x \<Rightarrow> False
           | Inr pd \<Rightarrow>
               (case post_initialize e (http_calls w) pd of
                  InitializeJson cu ref st msg \<Rightarrow> chapa_transaction_ref p' = ref
                | InitializeRequestException err \<Rightarrow> False
                | InitializeOtherException err \<Rightarrow> False))
   | Inr (InitiateFailure err msg, p', w') \<Rightarrow>
       status p' = ''failed'' \<and> chapa_transaction_ref p' = chapa_transaction_ref p
       \<and> pk p' = pk p \<and> payments w' = (payments w)(pk p \<mapsto> p')
       \<and> (case build_payment_data p of
             Inl x \<Rightarrow> False
           | Inr pd \<Rightarrow> initialize_fails e (http_calls w) pd)"
proof (cases "build_payment_data p")
  case (Inl x)
  then show ?thesis by (simp add: initiate_payment_def)
next
  case (Inr pd)
  let ?w1 = "w\<lparr>http_calls := Suc (http_calls w)\<rparr>"
  show ?thesis
  proof (cases "post_initialize e (http_calls w) pd")
    case (InitializeJson cu ref st msg)
    let ?q = "p\<lparr>chapa_transaction_ref := ref, checkout_url := cu, status := ''processing''\<rparr>"
    have i: "initialize_payment e pd w = (InitializeSuccess cu ref st msg, ?w1)"
      using InitializeJson by (simp add: initialize_payment_def)
    show ?thesis
      using save_payment [where e = e and p = ?q and w = ?w1]
        save_world [where e = e and p = ?q and w = ?w1]
      by (simp add: initiate_payment_def Inr i InitializeJson split: prod.splits)
  next
    case (InitializeRequestException err)
    let ?q = "p\<lparr>status := ''failed''\<rparr>"
    have i: "initialize_payment e pd w
               = (InitializeFailure err ''Failed to initialize payment'', ?w1)"
      using InitializeRequestException by (simp add: initialize_payment_def)
    show ?thesis
      using save_payment [where e = e and p = ?q and w = ?w1]
        save_world [where e = e and p = ?q and w = ?w1]
      by (simp add: initiate_payment_def Inr i InitializeRequestException
          initialize_fails_def split: prod.splits)
  next
    case (InitializeOtherException err)
    let ?q = "p\<lparr>status := ''failed''\<rparr>"
    have i: "initialize_payment e pd w
               = (InitializeFailure err ''An unexpected error occurred'', ?w1)"
      using InitializeOtherException by (simp add: initialize_payment_def)
    show ?thesis
      using save_payment [where e = e and p = ?q and w = ?w1]
        save_world [where e = e and p = ?q and w = ?w1]
      by (simp add: initiate_payment_def Inr i InitializeOtherException
          initialize_fails_def split: prod.splits)
  qed
qed

lemma gateway_refs_update:
  "payments w (pk p) = Some p \<Longrightarrow> payments w' = (payments w)(pk p \<mapsto> p') \<Longrightarrow>
   chapa_transaction_ref p' = chapa_transaction_ref p \<Longrightarrow> gateway_refs w' = gateway_refs w"
  by (rule ext) (simp add: gateway_refs_def)

lemma gateway_refs_same:
  "payments w' = payments w \<Longrightarrow> gateway_refs w' = gateway_refs w"
  by (rule ext) (simp add: gateway_refs_def)

lemma gateway_refs_cleanup:
  "gateway_refs (cleanup_expired_payments w) = gateway_refs w"
  by (rule ext) (simp add: gateway_refs_def cleanup_expired_payments_def split: option.splits)

lemma split_Alice: "split ''Alice Liddell'' = [''Alice'', ''Liddell'']"
  by code_simp

lemma receipt_payment_data:
  "build_payment_data (receipt st)
     = Inr \<lparr>pd_amount = 30000, pd_currency = ''ETB'',
            pd_email = Some ''alice@example.com'', pd_reference = ''ref-1'',
            pd_first_name = ''Alice'', pd_last_name = ''Liddell'',
            pd_booking_reference = 7, pd_callback_url = 1, pd_return_url = ''ref-1''\<rparr>"
  by (simp add: build_payment_data_def receipt_def truthy_def name_words_def split_Alice
      first_item_def)

lemma reporting_initialize:
  "post_initialize (gateway_reporting s) n pd
     = InitializeJson (Some ''https://checkout/2'') (Some ''chapa-2'') (Some ''success'') None"
  by (simp add: gateway_reporting_def)

lemma gateway_refs_store:
  "payments w' = (payments w)(i \<mapsto> p') \<Longrightarrow>
   gateway_refs w' = (gateway_refs w)(i \<mapsto> chapa_transaction_ref p')"
  by (rule ext) (simp add: gateway_refs_def)

text \<open>
  C8, as the code has it. For a payment that is in the table, \<open>verify_payment_status\<close> and
  the expiry sweep leave every stored gateway reference as it was. \<open>initiate_payment\<close>
  looks at no status: whenever the gateway answers its request, the call succeeds, the
  payment becomes \<open>processing\<close> and its gateway reference is replaced by the reference of
  the gateway's answer, whatever it was before; when the gateway call fails the payment
  becomes \<open>failed\<close> and the reference stays; when the payment data cannot be built the
  call raises and nothing changes.
\<close>

theorem gateway_reference_changes_only_on_initiate:
  assumes "payments w (pk p) = Some p"
  shows "(case verify_payment_status e p w of
            Inl (x, w') \<Rightarrow> gateway_refs w' = gateway_refs w
          | Inr (r, p', w') \<Rightarrow>
              chapa_transaction_ref p' = chapa_transaction_ref p
              \<and> gateway_refs w' = gateway_refs w)
         \<and> gateway_refs (cleanup_expired_payments w) = gateway_refs w
         \<and> (case build_payment_data p of
               Inl x \<Rightarrow> initiate_payment e p w = Inl (x, w)
             | Inr pd \<Rightarrow>
                 (case post_initialize e (http_calls w) pd of
                    InitializeJson url ref st msg \<Rightarrow>
                      (case initiate_payment e p w of
                         Inl x \<Rightarrow> False
                       | Inr (InitiateFailure err m, p', w') \<Rightarrow> False
                       | Inr (InitiateSuccess url' i r, p', w') \<Rightarrow>
                           chapa_transaction_ref p' = ref \<and> status p' = ''processing''
                           \<and> gateway_refs w' = (gateway_refs w)(pk p \<mapsto> ref))
                  | InitializeRequestException err \<Rightarrow>
                      (case initiate_payment e p w of
                         Inl x \<Rightarrow> False
                       | Inr (InitiateSuccess url' i r, p', w') \<Rightarrow> False
                       | Inr (InitiateFailure err' m, p', w') \<Rightarrow>
                           chapa_transaction_ref p' = chapa_transaction_ref p
                           \<and> status p' = ''failed''
                           \<and> gateway_refs w' = gateway_refs w)
                  | InitializeOtherException err \<Rightarrow>
                      (case initiate_payment e p w of
                         Inl x \<Rightarrow> False
                       | Inr (InitiateSuccess url' i r, p', w') \<Rightarrow> False
                       | Inr (InitiateFailure err' m, p', w') \<Rightarrow>
                           chapa_transaction_ref p' = chapa_transaction_ref p
                           \<and> status p' = ''failed''
                           \<and> gateway_refs w' = gateway_refs w)))"
proof -
  have v: "case verify_payment_status e p w of
            Inl (x, w') \<Rightarrow> gateway_refs w' = gateway_refs w
          | Inr (r, p', w') \<Rightarrow>
              chapa_transaction_ref p' = chapa_transaction_ref p
              \<and> gateway_refs w' = gateway_refs w"
    using verify_payment_status_cases [where e = e and p = p and w = w]
    by (auto split: sum.splits prod.splits verification_result.splits
        intro: gateway_refs_same gateway_refs_update [OF assms])
  have i: "case build_payment_data p of
               Inl x \<Rightarrow> initiate_payment e p w = Inl (x, w)
             | Inr pd \<Rightarrow>
                 (case post_initialize e (http_calls w) pd of
                    InitializeJson url ref st msg \<Rightarrow>
                      (case initiate_payment e p w of
                         Inl x \<Rightarrow> False
                       | Inr (InitiateFailure err m, p', w') \<Rightarrow> False
                       | Inr (InitiateSuccess url' i r, p', w') \<Rightarrow>
                           chapa_transaction_ref p' = ref \<and> status p' = ''processing''
                           \<and> gateway_refs w' = (gateway_refs w)(pk p \<mapsto> ref))
                  | InitializeRequestException err \<Rightarrow>
                      (case initiate_payment e p w of
                         Inl x \<Rightarrow> False
                       | Inr (InitiateSuccess url' i r, p', w') \<Rightarrow> False
                       | Inr (InitiateFailure err' m, p', w') \<Rightarrow>
                           chapa_transaction_ref p' = chapa_transaction_ref p
                           \<and> status p' = ''failed''
                           \<and> gateway_refs w' = gateway_refs w)
                  | InitializeOtherException err \<Rightarrow>
                      (case initiate_payment e p w of
                         Inl x \<Rightarrow> False
                       | Inr (InitiateSuccess url' i r, p', w') \<Rightarrow> False
                       | Inr (InitiateFailure err' m, p', w') \<Rightarrow>
                           chapa_transaction_ref p' = chapa_transaction_ref p
                           \<and> status p' = ''failed''
                           \<and> gateway_refs w' = gateway_refs w))"
  proof (cases "build_payment_data p")
    case (Inl x)
    then show ?thesis by (simp add: initiate_payment_def)
  next
    case (Inr pd)
    note c = initiate_payment_cases [where e = e and p = p and w = w]
    show ?thesis
    proof (cases "post_initialize e (http_calls w) pd")
      case (InitializeJson url ref st msg)
      then show ?thesis
        using c Inr
        by (auto simp add: initialize_fails_def
            split: sum.splits prod.splits initiate_result.splits
            dest: gateway_refs_store)
    next
      case (InitializeRequestException err)
      then show ?thesis
        using c Inr
        by (auto split: sum.splits prod.splits initiate_result.splits
            intro: gateway_refs_update [OF assms])
    next
      case (InitializeOtherException err)
      then show ?thesis
        using c Inr
        by (auto split: sum.splits prod.splits initiate_result.splits
            intro: gateway_refs_update [OF assms])
    qed
  qed
  from v i show ?thesis
    by (simp add: gateway_refs_cleanup)
qed

text \<open>
  A failed payment with reference \<open>chapa-1\<close> is initiated while the gateway is up: it
  is \<open>processing\<close> with reference \<open>chapa-2\<close> afterwards.
\<close>

theorem gateway_reference_changes_only_on_initiate_witness:
  "payments (world_with (receipt ''failed'')) (pk (receipt ''failed''))
     = Some (receipt ''failed'')
   \<and> chapa_transaction_ref (receipt ''failed'') = Some ''chapa-1''
   \<and> (case verify_payment_status (gateway_reporting ''success'') (receipt ''failed'')
              (world_with (receipt ''failed'')) of
         Inl (x, w') \<Rightarrow> gateway_refs w' = gateway_refs (world_with (receipt ''failed''))
       | Inr (r, p', w') \<Rightarrow>
           chapa_transaction_ref p' = chapa_transaction_ref (receipt ''failed'')
           \<and> gateway_refs w' = gateway_refs (world_with (receipt ''failed'')))
   \<and> gateway_refs (cleanup_expired_payments (world_with (receipt ''failed'')))
       = gateway_refs (world_with (receipt ''failed''))
   \<and> (case initiate_payment (gateway_reporting ''success'') (receipt ''failed'')
              (world_with (receipt ''failed'')) of
         Inl x \<Rightarrow> False
       | Inr (InitiateFailure err m, p', w') \<Rightarrow> False
       | Inr (InitiateSuccess url' i r, p', w') \<Rightarrow>
           chapa_transaction_ref p' = Some ''chapa-2'' \<and> status p' = ''processing''
           \<and> gateway_refs w'
               = (gateway_refs (world_with (receipt ''failed'')))
                   (pk (receipt ''failed'') \<mapsto> Some ''chapa-2''))"
proof -
  have h: "payments (world_with (receipt ''failed'')) (pk (receipt ''failed''))
             = Some (receipt ''failed'')"
    by (simp add: world_with_fields)
  have b: "chapa_transaction_ref (receipt ''failed'') = Some ''chapa-1''"
    by (simp add: receipt_fields)
  show ?thesis
    using gateway_reference_changes_only_on_initiate
      [OF h, where e = "gateway_reporting ''success''"] h b
    by (simp add: receipt_payment_data reporting_initialize)
qed

text \<open>
  A payment that is \<open>processing\<close> with gateway reference \<open>chapa-1\<close> is initiated again:
  the call succeeds and the reference is \<open>chapa-2\<close> afterwards.
\<close>

theorem initiate_overwrites_reference_counterexample:
  "chapa_transaction_ref (receipt ''processing'') = Some ''chapa-1''
   \<and> status (receipt ''processing'') = ''processing''
   \<and> payments (world_with (receipt ''processing'')) 1 = Some (receipt ''processing'')
   \<and> initiate_payment (gateway_reporting ''success'') (receipt ''processing'')
         (world_with (receipt ''processing''))
       = Inr (InitiateSuccess (Some ''https://checkout/2'') 1 ''ref-1'',
              (receipt ''processing'')\<lparr>chapa_transaction_ref := Some ''chapa-2'',
                 checkout_url := Some ''https://checkout/2'', updated_at := noon\<rparr>,
              (world_with ((receipt ''processing'')\<lparr>chapa_transaction_ref := Some ''chapa-2'',
                 checkout_url := Some ''https://checkout/2'', updated_at := noon\<rparr>))
                \<lparr>http_calls := 1\<rparr>)"
proof -
  let ?e = "gateway_reporting ''success''"
  let ?w = "world_with (receipt ''processing'')"
  let ?q = "(receipt ''processing'')\<lparr>chapa_transaction_ref := Some ''chapa-2'',
              checkout_url := Some ''https://checkout/2''\<rparr>"
  have i: "\<And>pd. initialize_payment ?e pd ?w
             = (InitializeSuccess (Some ''https://checkout/2'') (Some ''chapa-2'')
                  (Some ''success'') None, ?w\<lparr>http_calls := Suc 0\<rparr>)"
    by (simp add: initialize_payment_def reporting_initialize world_with_fields)
  have s: "save ?e ?q (?w\<lparr>http_calls := Suc 0\<rparr>)
             = (?q\<lparr>updated_at := noon\<rparr>,
                (world_with (?q\<lparr>updated_at := noon\<rparr>))\<lparr>http_calls := 1\<rparr>)"
    by (simp add: save_referenced receipt_fields world_with_fields)
       (simp add: world_with_def receipt_def empty_world_def)
  have q: "(receipt ''processing'')\<lparr>chapa_transaction_ref := Some ''chapa-2'',
              checkout_url := Some ''https://checkout/2'', status := ''processing''\<rparr> = ?q"
    by (simp add: receipt_def)
  have f: "pk (?q\<lparr>updated_at := noon\<rparr>) = 1"
    "reference (?q\<lparr>updated_at := noon\<rparr>) = ''ref-1''"
    by (simp_all add: receipt_fields)
  have r: "initiate_payment ?e (receipt ''processing'') ?w
       = Inr (InitiateSuccess (Some ''https://checkout/2'') 1 ''ref-1'',
              ?q\<lparr>updated_at := noon\<rparr>,
              (world_with (?q\<lparr>updated_at := noon\<rparr>))\<lparr>http_calls := 1\<rparr>)"
    by (simp only: initiate_payment_def receipt_payment_data i q s f
        sum.case prod.case initialize_result.case Let_def)
  show ?thesis
    using r by (simp add: receipt_fields world_with_fields)
qed

section \<open>Creating a payment for a booking\<close>

lemma objects_create_fits:
  assumes "\<bar>amt\<bar> < 10 ^ max_digits"
  shows "case objects_create e bk amt cemail cname st w of
           Inl x \<Rightarrow> False
         | Inr (p, w') \<Rightarrow>
             pk p = next_pk w \<and> booking p = bk \<and> amount p = amt \<and> status p = st
             \<and> customer_email p = cemail \<and> customer_name p = cname
             \<and> customer_phone p = None \<and> chapa_transaction_ref p = None
             \<and> checkout_url p = None \<and> created_at p = now w
             \<and> payments w' = (payments w)(next_pk w \<mapsto> p)
             \<and> next_pk w' = Suc (next_pk w) \<and> queue w' = queue w"
  using assms
  by (simp add: objects_create_def adapt_decimalfield_value_def uuid4_def Let_def)

lemma objects_create_overflow:
  assumes "\<not> \<bar>amt\<bar> < 10 ^ max_digits"
  shows "objects_create e bk amt cemail cname st w
           = Inl (InvalidOperation, w\<lparr>uuid_calls := Suc (uuid_calls w)\<rparr>)"
  using assms
  by (simp add: objects_create_def adapt_decimalfield_value_def uuid4_def Let_def)

lemma create_payment_for_booking_result:
  "if \<bar>price_per_night (listing b) * (end_date b - start_date b)\<bar> < 10 ^ max_digits
   then (case create_payment_for_booking e b u w of
           Inl x \<Rightarrow> False
         | Inr (p, w') \<Rightarrow>
             pk p = next_pk w
             \<and> amount p = price_per_night (listing b) * (end_date b - start_date b)
             \<and> status p = ''pending'' \<and> booking p = booking_pk b
             \<and> customer_email p = Some (email u)
             \<and> customer_name p
                 = Some (if strip (first_name u @ '' '' @ last_name u) = [] then username u
                         else strip (first_name u @ '' '' @ last_name u))
             \<and> chapa_transaction_ref p = None
             \<and> payments w' = (payments w)(next_pk w \<mapsto> p))
   else create_payment_for_booking e b u w
          = Inl (InvalidOperation, w\<lparr>uuid_calls := Suc (uuid_calls w)\<rparr>)"
proof -
  define nm where
    "nm = Some (if strip (first_name u @ '' '' @ last_name u) = [] then username u
                else strip (first_name u @ '' '' @ last_name u))"
  let ?a = "price_per_night (listing b) * (end_date b - start_date b)"
  have c: "create_payment_for_booking e b u w
             = objects_create e (booking_pk b) ?a (Some (email u)) nm ''pending'' w"
    by (simp only: create_payment_for_booking_def Let_def nm_def)
  have "if \<bar>?a\<bar> < 10 ^ max_digits
   then (case create_payment_for_booking e b u w of
           Inl x \<Rightarrow> False
         | Inr (p, w') \<Rightarrow>
             pk p = next_pk w \<and> amount p = ?a
             \<and> status p = ''pending'' \<and> booking p = booking_pk b
             \<and> customer_email p = Some (email u) \<and> customer_name p = nm
             \<and> chapa_transaction_ref p = None
             \<and> payments w' = (payments w)(next_pk w \<mapsto> p))
   else create_payment_for_booking e b u w
          = Inl (InvalidOperation, w\<lparr>uuid_calls := Suc (uuid_calls w)\<rparr>)"
  proof (cases "\<bar>?a\<bar> < 10 ^ max_digits")
    case True
    then show ?thesis
      using objects_create_fits
        [OF True, where e = e and bk = "booking_pk b" and cemail = "Some (email u)"
           and cname = nm and st = "''pending''" and w = w]
      by (simp add: c split: sum.splits prod.splits)
  next
    case False
    then show ?thesis
      by (simp add: c objects_create_overflow)
  qed
  then show ?thesis
    by (simp only: nm_def)
qed

lemma strip_Alice: "strip ''Alice Liddell'' = ''Alice Liddell''"
  by code_simp







section \<open>The expiry sweep\<close>

text \<open>
  C7. One run of \<open>cleanup_expired_payments\<close> turns every payment that is \<open>pending\<close> and
  was created more than 24 hours before the current time into the same payment with
  status \<open>failed\<close>, and leaves every pending payment created within the last 24 hours
  as it is.
\<close>

theorem expiry_sweep:
  assumes "payments w i = Some p" and "status p = ''pending''"
  shows "payments (cleanup_expired_payments w) i
           = Some (if created_at p < now w - timedelta_hours 24
                   then p\<lparr>status := ''failed''\<rparr> else p)
         \<and> timedelta_hours 24 = 24 * 60 * 60 * 1000000"
  using assms
  by (simp add: cleanup_expired_payments_def expired_def timedelta_hours_def)

text \<open>A payment created 25 hours ago is failed, one created 1 hour ago is untouched.\<close>

theorem expiry_sweep_witness:
  "payments two_pending 1 = Some stale \<and> status stale = ''pending''
   \<and> created_at stale = now two_pending - timedelta_hours 25
   \<and> payments (cleanup_expired_payments two_pending) 1 = Some (stale\<lparr>status := ''failed''\<rparr>)
   \<and> payments two_pending 2 = Some recent \<and> status recent = ''pending''
   \<and> created_at recent = now two_pending - timedelta_hours 1
   \<and> payments (cleanup_expired_payments two_pending) 2 = Some recent"
proof -
  have a: "payments two_pending 1 = Some stale" "payments two_pending 2 = Some recent"
    by (simp_all add: two_pending_def)
  have b: "status stale = ''pending''" "status recent = ''pending''"
    by (simp_all add: stale_def recent_def receipt_def)
  have c: "created_at stale = now two_pending - timedelta_hours 25"
    "created_at recent = now two_pending - timedelta_hours 1"
    by (simp_all add: stale_def recent_def two_pending_def empty_world_def)
  have d: "created_at stale < now two_pending - timedelta_hours 24"
    "\<not> created_at recent < now two_pending - timedelta_hours 24"
    by (simp_all add: c timedelta_hours_def)
  show ?thesis
    using expiry_sweep [OF a(1) b(1)] expiry_sweep [OF a(2) b(2)] a b c d
    by simp
qed

section \<open>Verifying twice\<close>

lemma update_payment_status_once:
  assumes row: "payments w i = Some p" and key: "pk p = i"
    and ref: "chapa_transaction_ref p = Some tr" "tr \<noteq> []"
    and r0: "reports e (http_calls w) tr s" and r1: "reports e (Suc (http_calls w)) tr s"
  shows "\<exists>p'. payments (update_payment_status e i w) i = Some p' \<and> pk p' = i
           \<and> chapa_transaction_ref p' = Some tr
           \<and> status p' = normalize_status (lower s)
           \<and> http_calls (update_payment_status e i w) = Suc (Suc (http_calls w))
           \<and> queue (update_payment_status e i w)
               = queue w @ notification i (normalize_status (lower s))"
proof -
  let ?st = "normalize_status (lower s)"
  let ?w1 = "w\<lparr>http_calls := Suc (http_calls w)\<rparr>"
  let ?w2 = "w\<lparr>http_calls := Suc (Suc (http_calls w))\<rparr>"
  from reports_json [OF r0] obtain amt cur rf msg where
    j0: "get_verify e (http_calls w) tr = VerifyJson (Some s) amt cur rf msg" by blast
  from reports_json [OF r1] obtain amt1 cur1 rf1 msg1 where
    j1: "get_verify e (Suc (http_calls w)) tr = VerifyJson (Some s) amt1 cur1 rf1 msg1" by blast
  have v: "verify_payment e tr w = (VerifySuccess (Some s) amt cur rf msg, ?w1)"
    by (rule verify_payment_json [OF j0])
  have g: "get_payment_status e tr ?w1 = Inr (?st, ?w2)"
    using get_payment_status_json [where e = e and w = ?w1 and tr = tr and s = s] j1
    by simp
  obtain p' w3 where s: "save e (p\<lparr>status := ?st\<rparr>) ?w2 = (p', w3)"
    by (cases "save e (p\<lparr>status := ?st\<rparr>) ?w2")
  have sp: "pk p' = i \<and> status p' = ?st \<and> chapa_transaction_ref p' = Some tr"
    using save_payment [where e = e and p = "p\<lparr>status := ?st\<rparr>" and w = ?w2] s key ref(1)
    by simp
  have sw: "payments w3 = (payments w)(i \<mapsto> p') \<and> queue w3 = queue w
              \<and> http_calls w3 = Suc (Suc (http_calls w))"
    using save_world [where e = e and p = "p\<lparr>status := ?st\<rparr>" and w = ?w2] s key
    by simp
  have r: "verify_payment_status e p w = Inr (VerificationSuccess ?st amt cur, p', w3)"
    by (simp add: verify_payment_status_def verify_with_reference_def ref v g s)
  have u: "update_payment_status e i w
             = (if ?st = ''completed'' then delay (SendPaymentConfirmationEmail i) w3
                else if ?st = ''failed'' then delay (SendPaymentFailedEmail i) w3
                else w3)"
    by (simp add: update_payment_status_def row r)
  have "payments (update_payment_status e i w) i = Some p'
        \<and> http_calls (update_payment_status e i w) = Suc (Suc (http_calls w))
        \<and> queue (update_payment_status e i w) = queue w @ notification i ?st"
    using sw by (simp add: u delay_def notification_def)
  with sp show ?thesis by blast
qed

lemma update_payment_status_twice:
  assumes row: "payments w i = Some p" and key: "pk p = i"
    and ref: "chapa_transaction_ref p = Some tr" "tr \<noteq> []"
    and r0: "reports e (http_calls w) tr s" and r1: "reports e (http_calls w + 1) tr s"
    and r2: "reports e (http_calls w + 2) tr s" and r3: "reports e (http_calls w + 3) tr s"
  shows "map_option status (payments (update_payment_status e i w) i)
           = Some (normalize_status (lower s))"
    and "map_option status
           (payments (update_payment_status e i (update_payment_status e i w)) i)
           = Some (normalize_status (lower s))"
    and "queue (update_payment_status e i w)
           = queue w @ notification i (normalize_status (lower s))"
    and "queue (update_payment_status e i (update_payment_status e i w))
           = queue w @ notification i (normalize_status (lower s))
               @ notification i (normalize_status (lower s))"
proof -
  let ?w1 = "update_payment_status e i w"
  from update_payment_status_once [OF row key ref r0] r1
  obtain p1 where a: "payments ?w1 i = Some p1" "pk p1 = i"
      "chapa_transaction_ref p1 = Some tr" "status p1 = normalize_status (lower s)"
      "http_calls ?w1 = Suc (Suc (http_calls w))"
      "queue ?w1 = queue w @ notification i (normalize_status (lower s))"
    by auto
  have r2': "reports e (http_calls ?w1) tr s"
    using r2 a(5) by simp
  have r3': "reports e (Suc (http_calls ?w1)) tr s"
    using r3 a(5) by (simp add: numeral_3_eq_3)
  from update_payment_status_once [OF a(1) a(2) a(3) ref(2) r2' r3']
  obtain p2 where b: "payments (update_payment_status e i ?w1) i = Some p2"
      "status p2 = normalize_status (lower s)"
      "queue (update_payment_status e i ?w1)
         = queue ?w1 @ notification i (normalize_status (lower s))"
    by auto
  show "map_option status (payments ?w1 i) = Some (normalize_status (lower s))"
    using a by simp
  show "map_option status (payments (update_payment_status e i ?w1) i)
          = Some (normalize_status (lower s))"
    using b by simp
  show "queue ?w1 = queue w @ notification i (normalize_status (lower s))"
    using a by simp
  show "queue (update_payment_status e i ?w1)
          = queue w @ notification i (normalize_status (lower s))
              @ notification i (normalize_status (lower s))"
    using a b by simp
qed

text \<open>
  C3, as the code has it. A payment with a gateway reference is in the table, and the
  gateway reports the same status \<open>s\<close> on all four requests that two runs of
  \<open>update_payment_status\<close> make. Then the stored status is the normalised \<open>s\<close> after the
  first run and after the second, and each run enqueues the notification of that status:
  the second run appends the same notification again.
\<close>

theorem verify_twice_same_status_and_notification:
  assumes "payments w i = Some p" and "pk p = i"
    and "chapa_transaction_ref p = Some tr" and "tr \<noteq> []"
    and "reports e (http_calls w) tr s" and "reports e (http_calls w + 1) tr s"
    and "reports e (http_calls w + 2) tr s" and "reports e (http_calls w + 3) tr s"
  shows "map_option status (payments (update_payment_status e i w) i)
           = Some (normalize_status (lower s))
         \<and> map_option status
             (payments (update_payment_status e i (update_payment_status e i w)) i)
             = Some (normalize_status (lower s))
         \<and> queue (update_payment_status e i w)
             = queue w @ notification i (normalize_status (lower s))
         \<and> queue (update_payment_status e i (update_payment_status e i w))
             = queue (update_payment_status e i w)
                 @ notification i (normalize_status (lower s))"
  using update_payment_status_twice [OF assms] by simp

text \<open>A processing payment and a gateway that reports \<open>failed\<close>.\<close>

theorem verify_twice_same_status_and_notification_witness:
  "payments (world_with (receipt ''processing'')) 1 = Some (receipt ''processing'')
   \<and> pk (receipt ''processing'') = 1
   \<and> chapa_transaction_ref (receipt ''processing'') = Some ''chapa-1''
   \<and> reports (gateway_reporting ''failed'') (http_calls (world_with (receipt ''processing'')))
        ''chapa-1'' ''failed''
   \<and> reports (gateway_reporting ''failed'')
        (http_calls (world_with (receipt ''processing'')) + 3) ''chapa-1'' ''failed''
   \<and> map_option status
        (payments (update_payment_status (gateway_reporting ''failed'') 1
           (world_with (receipt ''processing''))) 1) = Some ''failed''
   \<and> queue (update_payment_status (gateway_reporting ''failed'') 1
        (update_payment_status (gateway_reporting ''failed'') 1
           (world_with (receipt ''processing''))))
       = queue (update_payment_status (gateway_reporting ''failed'') 1
           (world_with (receipt ''processing''))) @ [SendPaymentFailedEmail 1]"
proof -
  let ?e = "gateway_reporting ''failed''"
  let ?w = "world_with (receipt ''processing'')"
  have a: "payments ?w 1 = Some (receipt ''processing'')"
    by (simp add: world_with_fields receipt_fields)
  have b: "pk (receipt ''processing'') = 1" by (simp add: receipt_fields)
  have c: "chapa_transaction_ref (receipt ''processing'') = Some ''chapa-1''"
    by (simp add: receipt_fields)
  have d: "''chapa-1'' \<noteq> []" by simp
  have n: "notification 1 ''failed'' = [SendPaymentFailedEmail 1]"
    by (simp add: notification_def)
  have m: "normalize_status (lower ''failed'') = ''failed''"
    by (simp add: lower_failed normalize_status_def)
  note r = reporting_reports [of "''failed''" _ "''chapa-1''"]
  have t: "map_option status (payments (update_payment_status ?e 1 ?w) 1) = Some ''failed''
           \<and> queue (update_payment_status ?e 1 (update_payment_status ?e 1 ?w))
               = queue (update_payment_status ?e 1 ?w) @ [SendPaymentFailedEmail 1]"
    using verify_twice_same_status_and_notification [OF a b c d r r r r]
    by (simp only: n m simp_thms)
  show ?thesis
    using t a b c r by (simp only: simp_thms)
qed

text \<open>
  The gateway reports \<open>success\<close> throughout. The first run takes the payment from
  \<open>processing\<close> to \<open>completed\<close> and enqueues the confirmation e-mail; the second run
  finds it \<open>completed\<close>, leaves it \<open>completed\<close>, and enqueues the e-mail a second time.
\<close>

theorem second_run_notifies_again_counterexample:
  "reports (gateway_reporting ''success'') 0 ''chapa-1'' ''success''
   \<and> reports (gateway_reporting ''success'') 1 ''chapa-1'' ''success''
   \<and> reports (gateway_reporting ''success'') 2 ''chapa-1'' ''success''
   \<and> reports (gateway_reporting ''success'') 3 ''chapa-1'' ''success''
   \<and> queue (world_with (receipt ''processing'')) = []
   \<and> map_option status
        (payments (update_payment_status (gateway_reporting ''success'') 1
           (world_with (receipt ''processing''))) 1) = Some ''completed''
   \<and> queue (update_payment_status (gateway_reporting ''success'') 1
        (world_with (receipt ''processing''))) = [SendPaymentConfirmationEmail 1]
   \<and> map_option status
        (payments (update_payment_status (gateway_reporting ''success'') 1
           (update_payment_status (gateway_reporting ''success'') 1
              (world_with (receipt ''processing'')))) 1) = Some ''completed''
   \<and> queue (update_payment_status (gateway_reporting ''success'') 1
        (update_payment_status (gateway_reporting ''success'') 1
           (world_with (receipt ''processing''))))
       = [SendPaymentConfirmationEmail 1, SendPaymentConfirmationEmail 1]"
proof -
  let ?e = "gateway_reporting ''success''"
  let ?w = "world_with (receipt ''processing'')"
  have a: "payments ?w 1 = Some (receipt ''processing'')"
    by (simp add: world_with_fields receipt_fields)
  have b: "pk (receipt ''processing'') = 1" by (simp add: receipt_fields)
  have c: "chapa_transaction_ref (receipt ''processing'') = Some ''chapa-1''"
    by (simp add: receipt_fields)
  have d: "''chapa-1'' \<noteq> []" by simp
  have n: "notification 1 ''completed'' = [SendPaymentConfirmationEmail 1]"
    by (simp add: notification_def)
  have m: "normalize_status (lower ''success'') = ''completed''"
    by (simp add: lower_success normalize_status_def)
  note r = reporting_reports [of "''success''" _ "''chapa-1''"]
  have q: "queue ?w = []" by (simp add: world_with_fields)
  note t = update_payment_status_twice [OF a b c d r r r r]
  have t1: "map_option status (payments (update_payment_status ?e 1 ?w) 1) = Some ''completed''"
    using t(1) by (simp only: m)
  have t2: "map_option status
              (payments (update_payment_status ?e 1 (update_payment_status ?e 1 ?w)) 1)
              = Some ''completed''"
    using t(2) by (simp only: m)
  have t3: "queue (update_payment_status ?e 1 ?w) = [SendPaymentConfirmationEmail 1]"
    using t(3) by (simp only: m n q append_Nil)
  have t4: "queue (update_payment_status ?e 1 (update_payment_status ?e 1 ?w))
              = [SendPaymentConfirmationEmail 1, SendPaymentConfirmationEmail 1]"
    using t(4) by (simp only: m n q append_Nil append_Cons)
  show ?thesis
    using t1 t2 t3 t4 q r by (simp only: simp_thms)
qed

section \<open>Gateway failures that are handled as errors\<close>

text \<open>
  When the gateway call of \<open>initiate_payment\<close> fails, the payment is saved as \<open>failed\<close>
  and a failure result is returned. When the first gateway call of
  \<open>verify_payment_status\<close> fails, a failure result is returned and neither the payment
  nor the table changes.
\<close>

lemma initiate_gateway_failure:
  assumes "build_payment_data p = Inr pd" and "initialize_fails e (http_calls w) pd"
  shows "case initiate_payment e p w of
           Inl x \<Rightarrow> False
         | Inr (InitiateSuccess url i r, p', w') \<Rightarrow> False
         | Inr (InitiateFailure err msg, p', w') \<Rightarrow>
             status p' = ''failed'' \<and> payments w' (pk p) = Some p'"
  using initiate_payment_cases [where e = e and p = p and w = w] assms
  by (auto simp add: initialize_fails_def
      split: sum.splits prod.splits initiate_result.splits initialize_reply.splits)

lemma verify_first_call_failure:
  assumes "chapa_transaction_ref p = Some tr" and "tr \<noteq> []"
    and "verify_fails e (http_calls w) tr"
  shows "case verify_payment_status e p w of
           Inl x \<Rightarrow> False
         | Inr (VerificationSuccess st amt cur, p', w') \<Rightarrow> False
         | Inr (VerificationFailure err msg, p', w') \<Rightarrow>
             p' = p \<and> payments w' = payments w"
proof -
  from verify_payment_fails [OF assms(3)] obtain err msg where
    "verify_payment e tr w = (VerifyFailure err msg, w\<lparr>http_calls := Suc (http_calls w)\<rparr>)"
    by blast
  then show ?thesis
    by (simp add: verify_payment_status_def verify_with_reference_def assms(1,2))
qed

end
